theory Spec2Isabelle
  imports Main
begin

section \<open>Values crossing the SDK boundary\<close>

text \<open>
  Strings are lists of characters. A value the source types as \<^verbatim>\<open>unknown\<close> is carried
  around and never inspected; it is modelled as an opaque string. A thrown value is either
  an \<^verbatim>\<open>Error\<close> with its message or something that is not an \<^verbatim>\<open>Error\<close>; this is all a
  \<^verbatim>\<open>catch\<close> block of the source looks at.
\<close>

type_synonym unknown = string

datatype exn = JsError string | JsOther

text \<open>\<^verbatim>\<open>error instanceof Error ? error.message : 'Unknown error'\<close>\<close>

fun error_message :: "exn \<Rightarrow> string" where
  "error_message (JsError m) = m"
| "error_message JsOther = ''Unknown error''"

text \<open>Truthiness of a \<^verbatim>\<open>string | null | undefined\<close>: present and not the empty string.\<close>

fun truthy :: "string option \<Rightarrow> bool" where
  "truthy None = False"
| "truthy (Some s) = (s \<noteq> [])"

text \<open>\<^verbatim>\<open>a ?? b\<close>\<close>

fun nullish :: "'a option \<Rightarrow> 'a \<Rightarrow> 'a" where
  "nullish None d = d"
| "nullish (Some v) d = v"

subsection \<open>types.ts\<close>

record OpencodeQueryOptions =
  opt_model :: "string option"
  opt_provider :: "string option"
  opt_allowedTools :: "string list option"
  opt_sessionId :: "string option"
  opt_externalContextPaths :: "string list option"
  opt_mcpServers :: "unknown option"
  opt_images :: "unknown list option"

text \<open>
  A stream chunk object, with the fields that the service writes and the adapter's
  \<^verbatim>\<open>convertChunk\<close> reads. An absent field is \<open>None\<close>.
\<close>

record OpencodeStreamChunk =
  chunk_type :: string
  content :: "string option"
  chunk_id :: "string option"
  chunk_name :: "string option"
  chunk_input :: "(string \<times> unknown) list option"
  result :: "string option"
  usage :: "(nat \<times> nat) option"
  sessionId :: "string option"
  error :: "string option"

text \<open>The object literals \<^verbatim>\<open>{ type: t, content: c }\<close> and \<^verbatim>\<open>{ type: t }\<close>.\<close>

definition chunk :: "string \<Rightarrow> string option \<Rightarrow> OpencodeStreamChunk" where
  "chunk t c = \<lparr>chunk_type = t, content = c, chunk_id = None, chunk_name = None,
     chunk_input = None, result = None, usage = None, sessionId = None, error = None\<rparr>"

record OpencodeServerConfig =
  hostname :: string
  port :: nat
  timeout :: nat

record OpencodeModelLimit =
  limit_context :: "nat option"
  limit_output :: "nat option"

record OpencodeModelInfo =
  info_name :: string
  capabilities_reasoning :: "bool option"
  info_reasoning :: "bool option"
  info_temperature :: bool
  info_cost :: "unknown option"
  info_limit :: "OpencodeModelLimit option"

text \<open>\<^verbatim>\<open>models\<close> is the \<^verbatim>\<open>Record<string, OpencodeModelInfo>\<close> in \<^verbatim>\<open>Object.entries\<close> order.\<close>

record OpencodeProvider =
  provider_api :: "string option"
  provider_name :: string
  provider_env :: "string list"
  provider_id :: string
  provider_npm :: "string option"
  provider_models :: "(string \<times> OpencodeModelInfo) list"

record OpencodeModel =
  model_value :: string
  model_label :: string
  model_description :: string
  model_provider :: string
  model_providerName :: string
  model_modelId :: string
  model_reasoning :: bool
  model_temperature :: bool
  model_contextLimit :: nat
  model_outputLimit :: nat
  model_cost :: "unknown option"

subsection \<open>The SDK client and the remote server\<close>

text \<open>
  The client handle is \<^verbatim>\<open>unknown | null\<close>; every method casts it and tests whether the
  SDK method it needs is there (\<^verbatim>\<open>client.session?.prompt\<close> and so on). The model keeps, for
  a client, which of these methods exist.
\<close>

record sdk_client =
  global_health :: bool
  config_providers :: bool
  session_create :: bool
  session_get :: bool
  session_list :: bool
  session_delete :: bool
  session_prompt :: bool
  session_messages :: bool
  session_share :: bool
  session_abort :: bool

datatype body_part = TextPart string | FilePart unknown

record model_selector =
  providerID :: string
  modelID :: string

record prompt_body =
  body_parts :: "body_part list"
  body_model :: "model_selector option"
  body_noReply :: bool

text \<open>
  The answer to a prompt, at the type the source casts it to: an object with optional
  \<^verbatim>\<open>info\<close> and \<^verbatim>\<open>parts\<close>, each part an object with a \<^verbatim>\<open>type\<close> and possibly a \<^verbatim>\<open>text\<close>.
\<close>

record response_part =
  part_type :: string
  part_text :: "string option"

record prompt_response =
  response_info :: "unknown option"
  response_parts :: "response_part list option"

text \<open>
  What the server answers to each SDK call: the awaited promise rejects (\<open>Inl\<close>) or
  resolves with the \<^verbatim>\<open>data\<close> of the result (\<open>Inr\<close>). \<open>sdk_import\<close> is the outcome of
  loading the SDK and creating a client in \<^verbatim>\<open>initialize\<close>; \<open>toLocaleString\<close> is the host's
  number formatting.
\<close>

record backend =
  sdk_import :: "exn + sdk_client"
  health_reply :: "exn + bool"
  providers_reply :: "exn + OpencodeProvider list"
  create_reply :: "exn + string"
  get_reply :: "exn + unknown"
  list_reply :: "exn + unknown list"
  delete_reply :: "exn + bool"
  prompt_reply :: "exn + prompt_response"
  messages_reply :: "exn + unknown list"
  share_reply :: "exn + string"
  abort_reply :: "exn + bool"
  toLocaleString :: "nat \<Rightarrow> string"

text \<open>
  The requests a method sends, in order, and what it writes with \<^verbatim>\<open>console.error\<close>.
  \<open>QueryStarted\<close> is not a request: it marks that the body of \<^verbatim>\<open>OpencodeService.query\<close>
  was entered, so that a caller's use of it can be observed.
\<close>

datatype request =
    GlobalHealth
  | ConfigProviders
  | SessionCreate string
  | SessionGet string
  | SessionList
  | SessionDelete string
  | SessionPrompt string prompt_body
  | SessionMessages string
  | SessionShare string
  | SessionAbort string

datatype event = Remote request | ConsoleError string | QueryStarted

section \<open>OpencodeService\<close>

text \<open>
  The fields of the class. \<open>abortController\<close> holds, for a controller, whether its signal
  has been aborted.
\<close>

record OpencodeService =
  config :: OpencodeServerConfig
  client :: "sdk_client option"
  currentSessionId :: "string option"
  abortController :: "bool option"
  cachedProviders :: "OpencodeProvider list option"
  cachedModels :: "OpencodeModel list option"

text \<open>
  A method takes the server's answers and the service, and gives back what it returns or
  throws, the service afterwards, and the events in order.
\<close>

type_synonym 'a outcome = "(exn + 'a) \<times> OpencodeService \<times> event list"

definition new_OpencodeService ::
  "string option \<Rightarrow> nat option \<Rightarrow> nat option \<Rightarrow> OpencodeService" where
  "new_OpencodeService h p t =
     \<lparr>config = \<lparr>hostname = nullish h ''127.0.0.1'', port = nullish p 4096,
                 timeout = nullish t 5000\<rparr>,
      client = None, currentSessionId = None, abortController = None,
      cachedProviders = None, cachedModels = None\<rparr>"

subsection \<open>query\<close>

text \<open>\<^verbatim>\<open>String.prototype.split\<close> with a one-character separator.\<close>

fun js_split :: "char \<Rightarrow> string \<Rightarrow> string list" where
  "js_split d [] = [] # []"
| "js_split d (c # cs) =
     (if c = d then [] # js_split d cs
      else (case js_split d cs of
              [] \<Rightarrow> [c] # []
            | seg # segs \<Rightarrow> (c # seg) # segs))"

text \<open>Array destructuring: the element at an index, or \<^verbatim>\<open>undefined\<close>.\<close>

definition element :: "'a list \<Rightarrow> nat \<Rightarrow> 'a option" where
  "element xs i = (if i < length xs then Some (xs ! i) else None)"

text \<open>
  \<^verbatim>\<open>
  let modelBody;
  if (options?.model) {
    const [providerID, modelID] = options.model.split(':');
    if (providerID && modelID) modelBody = { providerID, modelID };
  }
  \<close>
\<close>

definition modelBody :: "string option \<Rightarrow> model_selector option" where
  "modelBody m =
     (case m of
        None \<Rightarrow> None
      | Some k \<Rightarrow>
          if k = [] then None
          else (case (element (js_split CHR '':'' k) 0, element (js_split CHR '':'' k) 1) of
                  (Some p, Some i) \<Rightarrow>
                    if p \<noteq> [] \<and> i \<noteq> [] then Some \<lparr>providerID = p, modelID = i\<rparr> else None
                | _ \<Rightarrow> None))"

text \<open>The body of the loop over \<^verbatim>\<open>response.parts\<close>: the chunks one part yields.\<close>

definition part_chunks :: "response_part \<Rightarrow> OpencodeStreamChunk list" where
  "part_chunks p =
     (if part_type p = ''reasoning'' \<and> truthy (part_text p)
        then [chunk ''thinking'' (part_text p)]
      else if part_type p = ''text'' \<and> truthy (part_text p)
        then [chunk ''text'' (part_text p)]
      else [])"

fun parts_chunks :: "response_part list \<Rightarrow> OpencodeStreamChunk list" where
  "parts_chunks [] = []"
| "parts_chunks (p # ps) = part_chunks p @ parts_chunks ps"

text \<open>
  The \<^verbatim>\<open>try\<close> block of \<^verbatim>\<open>query\<close>: the prompt request that is sent, the chunks yielded, and the
  exception that ends the block, if any.
\<close>

definition query_try ::
  "backend \<Rightarrow> string \<Rightarrow> string \<Rightarrow> OpencodeQueryOptions option
     \<Rightarrow> OpencodeStreamChunk list \<times> exn option \<times> event list" where
  "query_try b prompt sid options =
     (let model = modelBody (case options of None \<Rightarrow> None | Some opts \<Rightarrow> opt_model opts);
          sent = [Remote (SessionPrompt sid
                    \<lparr>body_parts = [TextPart prompt], body_model = model, body_noReply = False\<rparr>)]
      in (case prompt_reply b of
            Inl e \<Rightarrow> ([], Some e, sent)
          | Inr response \<Rightarrow>
              (case response_parts response of
                 None \<Rightarrow> ([chunk ''done'' None], None, sent)
               | Some ps \<Rightarrow> (parts_chunks ps @ [chunk ''done'' None], None, sent))))"

text \<open>\<^verbatim>\<open>options?.sessionId ?? this.currentSessionId\<close>\<close>

definition query_sessionId :: "OpencodeService \<Rightarrow> OpencodeQueryOptions option \<Rightarrow> string option" where
  "query_sessionId s options =
     (case (case options of None \<Rightarrow> None | Some opts \<Rightarrow> opt_sessionId opts) of
        Some i \<Rightarrow> Some i
      | None \<Rightarrow> currentSessionId s)"

text \<open>
  The generator, run to its end: the chunks it yields, the exception it ends with if it
  throws (\<open>None\<close> when it returns), the service afterwards and the events.
\<close>

definition query ::
  "backend \<Rightarrow> OpencodeService \<Rightarrow> string \<Rightarrow> OpencodeQueryOptions option
     \<Rightarrow> (OpencodeStreamChunk list \<times> exn option) \<times> OpencodeService \<times> event list" where
  "query b s prompt options =
     (case client s of
        None \<Rightarrow>
          (([chunk ''error'' (Some ''OpenCode client not initialized'')], None), s, [QueryStarted])
      | Some c \<Rightarrow>
          (case query_sessionId s options of
             None \<Rightarrow>
               (([chunk ''error'' (Some ''No session ID provided'')], None), s, [QueryStarted])
           | Some sid \<Rightarrow>
               if sid = [] then
                 (([chunk ''error'' (Some ''No session ID provided'')], None), s, [QueryStarted])
               else if \<not> session_prompt c then
                 (([chunk ''error'' (Some ''Session prompt method not available'')], None),
                  s, [QueryStarted])
               else
                 (case query_try b prompt sid options of
                    (cs, None, sent) \<Rightarrow>
                      ((cs, None), s\<lparr>abortController := None\<rparr>, QueryStarted # sent)
                  | (cs, Some e, sent) \<Rightarrow>
                      ((cs @ [chunk ''error'' (Some (error_message e))], None),
                       s\<lparr>abortController := None\<rparr>, QueryStarted # sent))))"

subsection \<open>Lifecycle and the non-streaming methods\<close>

definition initialize :: "backend \<Rightarrow> OpencodeService \<Rightarrow> bool outcome" where
  "initialize b s =
     (case sdk_import b of
        Inl e \<Rightarrow> (Inr False, s, [])
      | Inr c \<Rightarrow> (Inr True, s\<lparr>client := Some c\<rparr>, []))"

definition healthCheck :: "backend \<Rightarrow> OpencodeService \<Rightarrow> bool outcome" where
  "healthCheck b s =
     (case client s of
        None \<Rightarrow> (Inr False, s, [])
      | Some c \<Rightarrow>
          if global_health c then
            (case health_reply b of
               Inl e \<Rightarrow> (Inr False, s, [Remote GlobalHealth])
             | Inr healthy \<Rightarrow> (Inr healthy, s, [Remote GlobalHealth]))
          else (Inr False, s, []))"

definition getProviders :: "backend \<Rightarrow> OpencodeService \<Rightarrow> OpencodeProvider list outcome" where
  "getProviders b s =
     (case cachedProviders s of
        Some ps \<Rightarrow> (Inr ps, s, [])
      | None \<Rightarrow>
          (case client s of
             None \<Rightarrow> (Inr [], s, [])
           | Some c \<Rightarrow>
               if \<not> config_providers c then (Inr [], s, [])
               else
                 (case providers_reply b of
                    Inl e \<Rightarrow> (Inr [], s, [Remote ConfigProviders])
                  | Inr ps \<Rightarrow>
                      (Inr ps, s\<lparr>cachedProviders := Some ps\<rparr>, [Remote ConfigProviders]))))"

text \<open>
  The object pushed for one entry of \<^verbatim>\<open>provider.models\<close>. The bullet of the description is
  written as its three UTF-8 bytes.
\<close>

definition model_entry ::
  "backend \<Rightarrow> OpencodeProvider \<Rightarrow> string \<Rightarrow> OpencodeModelInfo \<Rightarrow> OpencodeModel" where
  "model_entry b provider modelId model =
     (let reasoning =
            (case capabilities_reasoning model of
               Some r \<Rightarrow> r
             | None \<Rightarrow> nullish (info_reasoning model) False);
          context = (case info_limit model of None \<Rightarrow> None | Some l \<Rightarrow> limit_context l);
          output = (case info_limit model of None \<Rightarrow> None | Some l \<Rightarrow> limit_output l)
      in \<lparr>model_value = provider_id provider @ '':'' @ modelId,
          model_label = info_name model @ '' ('' @ provider_name provider @ '')'',
          model_description =
            ''Context: '' @ (case context of None \<Rightarrow> ''Unknown'' | Some n \<Rightarrow> toLocaleString b n)
              @ '' tokens''
              @ (if reasoning then '' '' @ [CHR 0xE2, CHR 0x80, CHR 0xA2] @ '' Reasoning'' else []),
          model_provider = provider_id provider,
          model_providerName = provider_name provider,
          model_modelId = modelId,
          model_reasoning = reasoning,
          model_temperature = info_temperature model,
          model_contextLimit = nullish context 200000,
          model_outputLimit = nullish output 8192,
          model_cost = info_cost model\<rparr>)"

fun provider_entries ::
  "backend \<Rightarrow> OpencodeProvider \<Rightarrow> (string \<times> OpencodeModelInfo) list \<Rightarrow> OpencodeModel list" where
  "provider_entries b provider [] = []"
| "provider_entries b provider ((modelId, model) # es) =
     model_entry b provider modelId model # provider_entries b provider es"

fun all_models :: "backend \<Rightarrow> OpencodeProvider list \<Rightarrow> OpencodeModel list" where
  "all_models b [] = []"
| "all_models b (provider # ps) =
     provider_entries b provider (provider_models provider) @ all_models b ps"

definition getModels :: "backend \<Rightarrow> OpencodeService \<Rightarrow> OpencodeModel list outcome" where
  "getModels b s =
     (case cachedModels s of
        Some ms \<Rightarrow> (Inr ms, s, [])
      | None \<Rightarrow>
          (case getProviders b s of
             (Inl e, s1, sent) \<Rightarrow> (Inl e, s1, sent)
           | (Inr providers, s1, sent) \<Rightarrow>
               (Inr (all_models b providers),
                s1\<lparr>cachedModels := Some (all_models b providers)\<rparr>, sent)))"

definition clearCache :: "OpencodeService \<Rightarrow> OpencodeService" where
  "clearCache s = s\<lparr>cachedProviders := None, cachedModels := None\<rparr>"

definition createSession ::
  "backend \<Rightarrow> OpencodeService \<Rightarrow> string option \<Rightarrow> string option outcome" where
  "createSession b s title =
     (case client s of
        None \<Rightarrow> (Inr None, s, [ConsoleError ''[OpenCode] Client not initialized''])
      | Some c \<Rightarrow>
          if \<not> session_create c then
            (Inr None, s, [ConsoleError ''[OpenCode] session.create method not available''])
          else
            (case create_reply b of
               Inl e \<Rightarrow>
                 (Inr None, s, [Remote (SessionCreate (nullish title ''OpenCode Session''))])
             | Inr i \<Rightarrow>
                 (Inr (Some i), s\<lparr>currentSessionId := Some i\<rparr>,
                  [Remote (SessionCreate (nullish title ''OpenCode Session''))])))"

definition getSession ::
  "backend \<Rightarrow> OpencodeService \<Rightarrow> string \<Rightarrow> unknown option outcome" where
  "getSession b s sid =
     (case client s of
        None \<Rightarrow> (Inr None, s, [])
      | Some c \<Rightarrow>
          if \<not> session_get c then (Inr None, s, [])
          else
            (case get_reply b of
               Inl e \<Rightarrow> (Inr None, s, [Remote (SessionGet sid)])
             | Inr d \<Rightarrow> (Inr (Some d), s, [Remote (SessionGet sid)])))"

definition listSessions :: "backend \<Rightarrow> OpencodeService \<Rightarrow> unknown list outcome" where
  "listSessions b s =
     (case client s of
        None \<Rightarrow> (Inr [], s, [])
      | Some c \<Rightarrow>
          if \<not> session_list c then (Inr [], s, [])
          else
            (case list_reply b of
               Inl e \<Rightarrow> (Inr [], s, [Remote SessionList])
             | Inr d \<Rightarrow> (Inr d, s, [Remote SessionList])))"

definition deleteSession :: "backend \<Rightarrow> OpencodeService \<Rightarrow> string \<Rightarrow> bool outcome" where
  "deleteSession b s sid =
     (case client s of
        None \<Rightarrow> (Inr False, s, [])
      | Some c \<Rightarrow>
          if \<not> session_delete c then (Inr False, s, [])
          else
            (case delete_reply b of
               Inl e \<Rightarrow> (Inr False, s, [Remote (SessionDelete sid)])
             | Inr d \<Rightarrow>
                 (Inr d,
                  if d \<and> currentSessionId s = Some sid then s\<lparr>currentSessionId := None\<rparr> else s,
                  [Remote (SessionDelete sid)])))"

definition getMessages ::
  "backend \<Rightarrow> OpencodeService \<Rightarrow> string \<Rightarrow> unknown list outcome" where
  "getMessages b s sid =
     (case client s of
        None \<Rightarrow> (Inr [], s, [])
      | Some c \<Rightarrow>
          if \<not> session_messages c then (Inr [], s, [])
          else
            (case messages_reply b of
               Inl e \<Rightarrow> (Inr [], s, [Remote (SessionMessages sid)])
             | Inr d \<Rightarrow> (Inr d, s, [Remote (SessionMessages sid)])))"

definition shareSession ::
  "backend \<Rightarrow> OpencodeService \<Rightarrow> string \<Rightarrow> string option outcome" where
  "shareSession b s sid =
     (case client s of
        None \<Rightarrow> (Inr None, s, [])
      | Some c \<Rightarrow>
          if \<not> session_share c then (Inr None, s, [])
          else
            (case share_reply b of
               Inl e \<Rightarrow> (Inr None, s, [Remote (SessionShare sid)])
             | Inr i \<Rightarrow> (Inr (Some i), s, [Remote (SessionShare sid)])))"

text \<open>
  \<^verbatim>\<open>abort\<close> signals the controller when there is one and then, when a session is bound and
  the client has \<^verbatim>\<open>session.abort\<close>, sends the abort request; its rejection is swallowed by
  the \<^verbatim>\<open>.catch\<close>, so the answer of the server plays no part.
\<close>

definition abort :: "backend \<Rightarrow> OpencodeService \<Rightarrow> unit outcome" where
  "abort b s =
     (Inr (),
      (case abortController s of
         None \<Rightarrow> s
       | Some aborted \<Rightarrow> s\<lparr>abortController := Some True\<rparr>),
      (case currentSessionId s of
         None \<Rightarrow> []
       | Some sid \<Rightarrow>
           if sid = [] then []
           else (case client s of
                   None \<Rightarrow> []
                 | Some c \<Rightarrow> if session_abort c then [Remote (SessionAbort sid)] else [])))"

definition setSessionId :: "OpencodeService \<Rightarrow> string option \<Rightarrow> OpencodeService" where
  "setSessionId s i = s\<lparr>currentSessionId := i\<rparr>"

definition getSessionId :: "OpencodeService \<Rightarrow> string option" where
  "getSessionId s = currentSessionId s"

definition cleanup :: "backend \<Rightarrow> OpencodeService \<Rightarrow> unit outcome" where
  "cleanup b s =
     (case abort b s of
        (Inl e, s1, sent) \<Rightarrow> (Inl e, s1, sent)
      | (Inr u, s1, sent) \<Rightarrow> (Inr (), s1\<lparr>client := None, currentSessionId := None\<rparr>, sent))"

section \<open>OpencodeServiceWrapper\<close>

text \<open>The chunks of the host (\<^verbatim>\<open>StreamChunk\<close>), as \<^verbatim>\<open>convertChunk\<close> builds them.\<close>

record UsageInfo =
  usage_model :: "string option"
  usage_inputTokens :: nat
  usage_cacheCreationInputTokens :: nat
  usage_cacheReadInputTokens :: nat
  usage_contextWindow :: nat
  usage_contextTokens :: nat
  usage_percentage :: nat

datatype StreamChunk =
    text_chunk string
  | thinking_chunk string
  | tool_use_chunk string string "(string \<times> unknown) list"
  | tool_result_chunk string string bool
  | error_chunk string
  | usage_chunk UsageInfo
  | done_chunk

record AgentQueryOptions =
  agent_allowedTools :: "string list option"
  agent_model :: "string option"
  agent_mcpMentions :: "string list option"
  agent_enabledMcpServers :: "string list option"
  agent_forceColdStart :: "bool option"
  agent_externalContextPaths :: "string list option"

record OpencodeServiceWrapper =
  opencodeService :: OpencodeService
  approvalCallback :: "unknown option"
  wrapper_currentSessionId :: "string option"
  vaultPath :: "string option"

type_synonym 'a wrapper_outcome = "(exn + 'a) \<times> OpencodeServiceWrapper \<times> event list"

definition convertChunk :: "OpencodeStreamChunk \<Rightarrow> StreamChunk" where
  "convertChunk c =
     (if chunk_type c = ''text'' then text_chunk (nullish (content c) [])
      else if chunk_type c = ''thinking'' \<or> chunk_type c = ''reasoning''
        then thinking_chunk (nullish (content c) [])
      else if chunk_type c = ''tool_use''
        then tool_use_chunk (nullish (chunk_id c) []) (nullish (chunk_name c) ''unknown'')
               (nullish (chunk_input c) [])
      else if chunk_type c = ''tool_result''
        then tool_result_chunk (nullish (chunk_id c) []) (nullish (result c) []) False
      else if chunk_type c = ''error'' then error_chunk (nullish (error c) ''Unknown error'')
      else if chunk_type c = ''usage''
        then usage_chunk
               \<lparr>usage_model = None,
                usage_inputTokens = (case usage c of None \<Rightarrow> 0 | Some (i, out) \<Rightarrow> i),
                usage_cacheCreationInputTokens = 0, usage_cacheReadInputTokens = 0,
                usage_contextWindow = 0, usage_contextTokens = 0, usage_percentage = 0\<rparr>
      else if chunk_type c = ''session''
        then text_chunk (''[Session: '' @ nullish (sessionId c) ''undefined'' @ '']'')
      else if chunk_type c = ''done'' then done_chunk
      else text_chunk [])"

definition wrapper_createSession ::
  "backend \<Rightarrow> OpencodeServiceWrapper \<Rightarrow> string option \<Rightarrow> string option wrapper_outcome" where
  "wrapper_createSession b w title =
     (case createSession b (opencodeService w) title of
        (Inl e, s1, sent) \<Rightarrow> (Inl e, w\<lparr>opencodeService := s1\<rparr>, sent)
      | (Inr sid, s1, sent) \<Rightarrow>
          if truthy sid then
            (Inr sid,
             w\<lparr>opencodeService := setSessionId s1 sid, wrapper_currentSessionId := sid\<rparr>, sent)
          else (Inr sid, w\<lparr>opencodeService := s1\<rparr>, sent))"

definition wrapper_getSessionId :: "OpencodeServiceWrapper \<Rightarrow> string option" where
  "wrapper_getSessionId w = wrapper_currentSessionId w"

definition wrapper_setSessionId ::
  "OpencodeServiceWrapper \<Rightarrow> string option \<Rightarrow> OpencodeServiceWrapper" where
  "wrapper_setSessionId w i =
     w\<lparr>wrapper_currentSessionId := i, opencodeService := setSessionId (opencodeService w) i\<rparr>"

text \<open>
  The options the adapter passes to the service:
  \<^verbatim>\<open>{ sessionId: this.currentSessionId ?? undefined, model: queryOptions?.model, images }\<close>
\<close>

definition wrapper_options ::
  "OpencodeServiceWrapper \<Rightarrow> unknown list option \<Rightarrow> AgentQueryOptions option
     \<Rightarrow> OpencodeQueryOptions" where
  "wrapper_options w images queryOptions =
     \<lparr>opt_model = (case queryOptions of None \<Rightarrow> None | Some q \<Rightarrow> agent_model q),
      opt_provider = None, opt_allowedTools = None,
      opt_sessionId = wrapper_currentSessionId w,
      opt_externalContextPaths = None, opt_mcpServers = None,
      opt_images = images\<rparr>"

text \<open>
  The \<^verbatim>\<open>try\<close>/\<^verbatim>\<open>catch\<close> of the adapter's \<^verbatim>\<open>query\<close>: every chunk of the service's generator is
  converted and yielded; if the generator throws, an error chunk with the message follows.
\<close>

definition wrapper_stream ::
  "backend \<Rightarrow> OpencodeServiceWrapper \<Rightarrow> string \<Rightarrow> unknown list option
     \<Rightarrow> AgentQueryOptions option
     \<Rightarrow> (StreamChunk list \<times> exn option) \<times> OpencodeServiceWrapper \<times> event list" where
  "wrapper_stream b w prompt images queryOptions =
     (case query b (opencodeService w) prompt (Some (wrapper_options w images queryOptions)) of
        ((cs, None), s1, sent) \<Rightarrow>
          ((map convertChunk cs, None), w\<lparr>opencodeService := s1\<rparr>, sent)
      | ((cs, Some e), s1, sent) \<Rightarrow>
          ((map convertChunk cs @ [error_chunk (error_message e)], None),
           w\<lparr>opencodeService := s1\<rparr>, sent))"

definition wrapper_query ::
  "backend \<Rightarrow> OpencodeServiceWrapper \<Rightarrow> string \<Rightarrow> unknown list option \<Rightarrow> unknown list option
     \<Rightarrow> AgentQueryOptions option
     \<Rightarrow> (StreamChunk list \<times> exn option) \<times> OpencodeServiceWrapper \<times> event list" where
  "wrapper_query b w prompt images conversationHistory queryOptions =
     (if \<not> truthy (wrapper_currentSessionId w) then
        (case wrapper_createSession b w None of
           (Inl e, w1, sent) \<Rightarrow> (([], Some e), w1, sent)
         | (Inr sid, w1, sent) \<Rightarrow>
             if \<not> truthy sid then
               (([error_chunk ''Failed to create OpenCode session''], None), w1, sent)
             else
               (case wrapper_stream b w1 prompt images queryOptions of
                  (r, w2, sent2) \<Rightarrow> (r, w2, sent @ sent2)))
      else wrapper_stream b w prompt images queryOptions)"

definition wrapper_deleteSession ::
  "backend \<Rightarrow> OpencodeServiceWrapper \<Rightarrow> string \<Rightarrow> bool wrapper_outcome" where
  "wrapper_deleteSession b w sid =
     (case deleteSession b (opencodeService w) sid of
        (Inl e, s1, sent) \<Rightarrow> (Inl e, w\<lparr>opencodeService := s1\<rparr>, sent)
      | (Inr r, s1, sent) \<Rightarrow>
          (Inr r,
           if r \<and> wrapper_currentSessionId w = Some sid
             then w\<lparr>opencodeService := s1, wrapper_currentSessionId := None\<rparr>
             else w\<lparr>opencodeService := s1\<rparr>,
           sent))"

section \<open>Sequences of calls on a service\<close>

text \<open>
  The methods of \<^verbatim>\<open>OpencodeService\<close> that can change it, with their arguments
  (\<^verbatim>\<open>getServerUrl\<close> and \<^verbatim>\<open>getSessionId\<close> only read). A call comes with the answers the
  server gives during it; \<open>step\<close> is the service after the call, \<open>run\<close> the service after
  a sequence of calls.
\<close>

datatype call =
    Initialize
  | HealthCheck
  | GetProviders
  | GetModels
  | ClearCache
  | CreateSession "string option"
  | GetSession string
  | ListSessions
  | DeleteSession string
  | Query string "OpencodeQueryOptions option"
  | GetMessages string
  | ShareSession string
  | Abort
  | SetSessionId "string option"
  | Cleanup

fun step :: "backend \<times> call \<Rightarrow> OpencodeService \<Rightarrow> OpencodeService" where
  "step (b, Initialize) s = fst (snd (initialize b s))"
| "step (b, HealthCheck) s = fst (snd (healthCheck b s))"
| "step (b, GetProviders) s = fst (snd (getProviders b s))"
| "step (b, GetModels) s = fst (snd (getModels b s))"
| "step (b, ClearCache) s = clearCache s"
| "step (b, CreateSession title) s = fst (snd (createSession b s title))"
| "step (b, GetSession sid) s = fst (snd (getSession b s sid))"
| "step (b, ListSessions) s = fst (snd (listSessions b s))"
| "step (b, DeleteSession sid) s = fst (snd (deleteSession b s sid))"
| "step (b, Query prompt options) s = fst (snd (query b s prompt options))"
| "step (b, GetMessages sid) s = fst (snd (getMessages b s sid))"
| "step (b, ShareSession sid) s = fst (snd (shareSession b s sid))"
| "step (b, Abort) s = fst (snd (abort b s))"
| "step (b, SetSessionId i) s = setSessionId s i"
| "step (b, Cleanup) s = fst (snd (cleanup b s))"

fun run :: "(backend \<times> call) list \<Rightarrow> OpencodeService \<Rightarrow> OpencodeService" where
  "run [] s = s"
| "run (c # cs) s = run cs (step c s)"

text \<open>
  The life of a service ends with \<^verbatim>\<open>cleanup\<close>: no call follows it. A sequence of calls within
  that life has no \<^verbatim>\<open>cleanup\<close> in it.
\<close>

definition no_cleanup :: "(backend \<times> call) list \<Rightarrow> bool" where
  "no_cleanup calls = list_all (\<lambda>c. snd c \<noteq> Cleanup) calls"

definition no_clearCache :: "(backend \<times> call) list \<Rightarrow> bool" where
  "no_clearCache calls = list_all (\<lambda>c. snd c \<noteq> ClearCache) calls"

text \<open>No call that asks for the providers, which \<^verbatim>\<open>getProviders\<close> and \<^verbatim>\<open>getModels\<close> do.\<close>

definition no_fetch :: "(backend \<times> call) list \<Rightarrow> bool" where
  "no_fetch calls = list_all (\<lambda>c. snd c \<noteq> GetProviders \<and> snd c \<noteq> GetModels) calls"

text \<open>
  \<^verbatim>\<open>initialize\<close> builds its client with \<^verbatim>\<open>createOpencodeClient\<close> of the one SDK module the
  program loads: whenever it succeeds, the client has the same methods. \<open>same_sdk sdk\<close> says
  so of a sequence of calls, \<open>sdk\<close> being that client.
\<close>

fun same_sdk_call :: "sdk_client \<Rightarrow> backend \<times> call \<Rightarrow> bool" where
  "same_sdk_call sdk (b, Initialize) = (case sdk_import b of Inl e \<Rightarrow> True | Inr c \<Rightarrow> c = sdk)"
| "same_sdk_call sdk (b, c) = True"

definition same_sdk :: "sdk_client \<Rightarrow> (backend \<times> call) list \<Rightarrow> bool" where
  "same_sdk sdk calls = list_all (same_sdk_call sdk) calls"

text \<open>
  What holds of a service throughout its life. Without a client nothing is cached; and
  what is cached was fetched through the SDK's client, which is still there.
\<close>

definition cache_inv :: "OpencodeService \<Rightarrow> bool" where
  "cache_inv s = (client s = None \<longrightarrow> cachedProviders s = None)"

definition sdk_inv :: "sdk_client \<Rightarrow> OpencodeService \<Rightarrow> bool" where
  "sdk_inv sdk s =
     ((client s = None \<or> client s = Some sdk)
      \<and> (case cachedProviders s of
           None \<Rightarrow> True
         | Some ps \<Rightarrow> client s = Some sdk \<and> config_providers sdk)
      \<and> (case cachedModels s of
           None \<Rightarrow> True
         | Some ms \<Rightarrow> ms = [] \<or> (client s = Some sdk \<and> config_providers sdk)))"

section \<open>Notions of the specification\<close>

text \<open>A terminal marker is a chunk of type \<^verbatim>\<open>done\<close> or \<^verbatim>\<open>error\<close>.\<close>

definition terminal :: "OpencodeStreamChunk \<Rightarrow> bool" where
  "terminal c = (chunk_type c = ''done'' \<or> chunk_type c = ''error'')"

text \<open>
  The normalizer as the specification words it: a part yields a chunk when it is tagged
  \<^verbatim>\<open>reasoning\<close> or \<^verbatim>\<open>text\<close> and has non-empty text; the chunk is a thinking chunk for
  \<^verbatim>\<open>reasoning\<close> and a text chunk for \<^verbatim>\<open>text\<close>, carrying that text; the chunks come in the
  order of the parts, and one \<^verbatim>\<open>done\<close> chunk closes the sequence.
\<close>

definition emitting :: "response_part \<Rightarrow> bool" where
  "emitting p =
     ((part_type p = ''reasoning'' \<or> part_type p = ''text'')
      \<and> (case part_text p of None \<Rightarrow> False | Some t \<Rightarrow> t \<noteq> []))"

definition emitted_for :: "response_part \<Rightarrow> OpencodeStreamChunk" where
  "emitted_for p =
     chunk (if part_type p = ''reasoning'' then ''thinking'' else ''text'') (part_text p)"

definition normalizer_spec :: "response_part list \<Rightarrow> OpencodeStreamChunk list" where
  "normalizer_spec ps = map emitted_for (filter emitting ps) @ [chunk ''done'' None]"

text \<open>
  A malformed model key: no colon at all, or nothing before the first colon, or nothing
  between the first colon and the next one (or the end).
\<close>

definition key_before :: "string \<Rightarrow> string" where
  "key_before k = takeWhile (\<lambda>c. c \<noteq> CHR '':'') k"

definition key_after :: "string \<Rightarrow> string" where
  "key_after k =
     takeWhile (\<lambda>c. c \<noteq> CHR '':'') (drop 1 (dropWhile (\<lambda>c. c \<noteq> CHR '':'') k))"

definition malformed_key :: "string \<Rightarrow> bool" where
  "malformed_key k = (CHR '':'' \<notin> set k \<or> key_before k = [] \<or> key_after k = [])"

section \<open>Example services and servers\<close>

text \<open>A client with every SDK method, and a server that rejects every call.\<close>

definition full_client :: sdk_client where
  "full_client = \<lparr>global_health = True, config_providers = True, session_create = True,
     session_get = True, session_list = True, session_delete = True, session_prompt = True,
     session_messages = True, session_share = True, session_abort = True\<rparr>"

definition offline :: backend where
  "offline = \<lparr>sdk_import = Inr full_client,
     health_reply = Inl (JsError ''fetch failed''),
     providers_reply = Inl (JsError ''fetch failed''),
     create_reply = Inl (JsError ''fetch failed''),
     get_reply = Inl (JsError ''fetch failed''),
     list_reply = Inl (JsError ''fetch failed''),
     delete_reply = Inl (JsError ''fetch failed''),
     prompt_reply = Inl (JsError ''fetch failed''),
     messages_reply = Inl (JsError ''fetch failed''),
     share_reply = Inl (JsError ''fetch failed''),
     abort_reply = Inl (JsError ''fetch failed''),
     toLocaleString = (\<lambda>n. ''200,000'')\<rparr>"

text \<open>A service after a successful \<^verbatim>\<open>initialize\<close>, and the same with session \<^verbatim>\<open>s1\<close> bound.\<close>

definition connected :: OpencodeService where
  "connected = fst (snd (initialize offline (new_OpencodeService None None None)))"

definition bound :: OpencodeService where
  "bound = setSessionId connected (Some ''s1'')"

text \<open>Servers answering the prompt as in scenarios B and C of the specification.\<close>

definition scenario_B :: backend where
  "scenario_B = offline\<lparr>prompt_reply := Inr \<lparr>response_info = None, response_parts = Some
     [\<lparr>part_type = ''reasoning'', part_text = Some ''t1''\<rparr>,
      \<lparr>part_type = ''text'', part_text = Some ''answer''\<rparr>]\<rparr>\<rparr>"

definition scenario_C :: backend where
  "scenario_C = offline\<lparr>prompt_reply := Inr \<lparr>response_info = None, response_parts = Some []\<rparr>\<rparr>"

definition new_wrapper :: "OpencodeService \<Rightarrow> OpencodeServiceWrapper" where
  "new_wrapper s = \<lparr>opencodeService = s, approvalCallback = None,
     wrapper_currentSessionId = None, vaultPath = None\<rparr>"

text \<open>The adapter over the connected service, fresh and with session \<^verbatim>\<open>s1\<close> bound.\<close>

definition bound_wrapper :: OpencodeServiceWrapper where
  "bound_wrapper = wrapper_setSessionId (new_wrapper connected) (Some ''s1'')"

text \<open>The adapter with session \<^verbatim>\<open>s1\<close> bound over a service that was never initialized.\<close>

definition unready_wrapper :: OpencodeServiceWrapper where
  "unready_wrapper =
     wrapper_setSessionId (new_wrapper (new_OpencodeService None None None)) (Some ''s1'')"

text \<open>A server with one provider offering one model, which creates and deletes sessions.\<close>

definition example_model :: OpencodeModelInfo where
  "example_model = \<lparr>info_name = ''Big Pickle'', capabilities_reasoning = Some True,
     info_reasoning = None, info_temperature = True, info_cost = None,
     info_limit = Some \<lparr>limit_context = Some 200000, limit_output = Some 8192\<rparr>\<rparr>"

definition example_provider :: OpencodeProvider where
  "example_provider = \<lparr>provider_api = None, provider_name = ''OpenCode Zen'',
     provider_env = [], provider_id = ''opencode'', provider_npm = None,
     provider_models = [(''big-pickle'', example_model)]\<rparr>"

definition serving :: backend where
  "serving = offline\<lparr>health_reply := Inr True, providers_reply := Inr [example_provider],
     create_reply := Inr ''s1'', delete_reply := Inr True\<rparr>"

text \<open>A server for which loading the SDK fails, so that \<^verbatim>\<open>initialize\<close> returns false.\<close>

definition broken_sdk :: backend where
  "broken_sdk = serving\<lparr>sdk_import := Inl (JsError ''Cannot find module'')\<rparr>"

text \<open>Query options with nothing set.\<close>

definition plain_options :: OpencodeQueryOptions where
  "plain_options = \<lparr>opt_model = None, opt_provider = None, opt_allowedTools = None,
     opt_sessionId = None, opt_externalContextPaths = None, opt_mcpServers = None,
     opt_images = None\<rparr>"

section \<open>The streaming normalizer\<close>

lemmas example_defs = full_client_def offline_def connected_def bound_def scenario_B_def
  scenario_C_def new_wrapper_def bound_wrapper_def example_model_def example_provider_def
  serving_def broken_sdk_def new_OpencodeService_def initialize_def setSessionId_def
  wrapper_setSessionId_def

lemma parts_chunks_spec: "parts_chunks ps = map emitted_for (filter emitting ps)"
proof (induction ps)
  case Nil
  show ?case by simp
next
  case (Cons p ps)
  show ?case
  proof (cases "part_text p")
    case None
    with Cons show ?thesis by (simp add: part_chunks_def emitting_def)
  next
    case (Some t)
    with Cons show ?thesis by (auto simp: part_chunks_def emitting_def emitted_for_def)
  qed
qed

lemma parts_chunks_not_terminal: "filter terminal (parts_chunks ps) = []"
  by (induction ps) (auto simp: part_chunks_def terminal_def chunk_def)

lemma connected_client: "client connected = Some full_client"
  by (simp add: connected_def initialize_def offline_def new_OpencodeService_def)

lemma bound_client: "client bound = Some full_client"
  by (simp add: bound_def setSessionId_def connected_client)

lemma bound_session: "currentSessionId bound = Some ''s1''"
  by (simp add: bound_def setSessionId_def)

text \<open>
  C3. When the prompt call succeeds with the part list \<open>ps\<close>, the generator yields exactly
  what the specification's normalizer yields for \<open>ps\<close>: in the order of the parts, a thinking
  chunk for each \<^verbatim>\<open>reasoning\<close> part with non-empty text, a text chunk for each \<^verbatim>\<open>text\<close> part with
  non-empty text, nothing for any other part, and then one \<^verbatim>\<open>done\<close> chunk; and it returns
  without throwing.
\<close>

theorem query_normalizes:
  assumes "client s = Some c" and "session_prompt c"
    and "query_sessionId s options = Some sid" and "sid \<noteq> []"
    and "prompt_reply b = Inr r" and "response_parts r = Some ps"
  shows "fst (query b s prompt options) = (normalizer_spec ps, None)"
  using assms
  by (simp add: query_def query_try_def Let_def normalizer_spec_def parts_chunks_spec)

text \<open>Scenarios B and C of the specification, as instances.\<close>

theorem query_normalizes_witness:
  "fst (query scenario_B bound ''hello'' None)
     = ([chunk ''thinking'' (Some ''t1''), chunk ''text'' (Some ''answer''), chunk ''done'' None],
        None)
   \<and> fst (query scenario_C bound ''hello'' None) = ([chunk ''done'' None], None)"
proof -
  have sid: "query_sessionId bound None = Some ''s1''"
    by (simp add: query_sessionId_def bound_session)
  have has_prompt: "session_prompt full_client"
    by (simp add: full_client_def)
  have B: "prompt_reply scenario_B = Inr \<lparr>response_info = None, response_parts = Some
     [\<lparr>part_type = ''reasoning'', part_text = Some ''t1''\<rparr>,
      \<lparr>part_type = ''text'', part_text = Some ''answer''\<rparr>]\<rparr>"
    by (simp add: scenario_B_def)
  have C: "prompt_reply scenario_C = Inr \<lparr>response_info = None, response_parts = Some []\<rparr>"
    by (simp add: scenario_C_def)
  from query_normalizes [where prompt = "''hello''", OF bound_client has_prompt sid _ B]
  have "fst (query scenario_B bound ''hello'' None)
     = (normalizer_spec [\<lparr>part_type = ''reasoning'', part_text = Some ''t1''\<rparr>,
      \<lparr>part_type = ''text'', part_text = Some ''answer''\<rparr>], None)"
    by simp
  moreover from query_normalizes [where prompt = "''hello''", OF bound_client has_prompt sid _ C]
  have "fst (query scenario_C bound ''hello'' None) = (normalizer_spec [], None)"
    by simp
  ultimately show ?thesis
    by (simp add: normalizer_spec_def emitting_def emitted_for_def)
qed

text \<open>
  C4. Whatever the service, the server's answer and the options are, the chunk sequence of
  \<^verbatim>\<open>query\<close> is not empty, its last chunk is a terminal marker, it holds exactly one terminal
  marker (so none before the last chunk and nothing after it), and the generator returns
  without throwing.
\<close>

theorem query_one_terminal:
  "snd (fst (query b s prompt options)) = None
   \<and> fst (fst (query b s prompt options)) \<noteq> []
   \<and> terminal (last (fst (fst (query b s prompt options))))
   \<and> length (filter terminal (fst (fst (query b s prompt options)))) = 1"
  by (auto simp: query_def query_try_def Let_def parts_chunks_not_terminal terminal_def chunk_def
      split: option.splits sum.splits)

section \<open>Model keys\<close>

lemma js_split_no_sep: "d \<notin> set xs \<Longrightarrow> js_split d xs = [xs]"
  by (induction xs) auto

lemma js_split_first: "d \<notin> set xs \<Longrightarrow> js_split d (xs @ d # ys) = xs # js_split d ys"
  by (induction xs) auto

lemma js_split_hd:
  "js_split d k = takeWhile (\<lambda>c. c \<noteq> d) k
     # (if d \<in> set k then js_split d (drop 1 (dropWhile (\<lambda>c. c \<noteq> d) k)) else [])"
  by (induction k) (auto split: list.splits)

lemma element_Cons_0: "element (x # xs) 0 = Some x"
  by (simp add: element_def)

lemma element_Cons_1: "element (x # xs) (Suc 0) = element xs 0"
  by (simp add: element_def)

lemma element_Nil: "element [] i = None"
  by (simp add: element_def)

lemma element_js_split_0: "element (js_split d k) 0 = Some (takeWhile (\<lambda>c. c \<noteq> d) k)"
  by (subst js_split_hd) (simp add: element_Cons_0)

lemma element_js_split_1:
  "element (js_split d k) (Suc 0) =
     (if d \<in> set k
      then Some (takeWhile (\<lambda>c. c \<noteq> d) (drop 1 (dropWhile (\<lambda>c. c \<noteq> d) k)))
      else None)"
  by (subst js_split_hd) (simp add: element_Cons_1 element_js_split_0 element_Nil)

text \<open>What \<^verbatim>\<open>query\<close> makes of a model key: the first two segments, when neither is empty.\<close>

lemma modelBody_key:
  "modelBody (Some k) =
     (if CHR '':'' \<in> set k \<and> key_before k \<noteq> [] \<and> key_after k \<noteq> []
      then Some \<lparr>providerID = key_before k, modelID = key_after k\<rparr> else None)"
  by (auto simp: modelBody_def element_js_split_0 element_js_split_1 key_before_def key_after_def)

lemma modelBody_malformed: "malformed_key k \<Longrightarrow> modelBody (Some k) = None"
  by (auto simp: modelBody_key malformed_key_def)

lemma modelBody_None: "modelBody None = None"
  by (simp add: modelBody_def)

text \<open>
  C6. For a provider id and a model id without a colon, the key that \<^verbatim>\<open>getModels\<close> builds
  splits on the colon into exactly the two ids, which are what the destructuring in \<^verbatim>\<open>query\<close>
  binds; \<^verbatim>\<open>query\<close> then sends them as \<^verbatim>\<open>{providerID, modelID}\<close>, unless one of them is empty,
  in which case its truthiness test leaves the selector out.
\<close>

theorem key_round_trip:
  assumes "CHR '':'' \<notin> set (provider_id provider)" and "CHR '':'' \<notin> set modelId"
  shows "js_split CHR '':'' (model_value (model_entry b provider modelId model))
           = [provider_id provider, modelId]
       \<and> element (js_split CHR '':'' (model_value (model_entry b provider modelId model))) 0
           = Some (provider_id provider)
       \<and> element (js_split CHR '':'' (model_value (model_entry b provider modelId model))) 1
           = Some modelId
       \<and> modelBody (Some (model_value (model_entry b provider modelId model)))
           = (if provider_id provider = [] \<or> modelId = [] then None
              else Some \<lparr>providerID = provider_id provider, modelID = modelId\<rparr>)"
  using assms
  by (simp add: model_entry_def Let_def js_split_first js_split_no_sep modelBody_def element_def)

theorem key_round_trip_witness:
  "CHR '':'' \<notin> set (provider_id example_provider) \<and> CHR '':'' \<notin> set ''big-pickle''
   \<and> model_value (model_entry serving example_provider ''big-pickle'' example_model)
       = ''opencode:big-pickle''
   \<and> js_split CHR '':'' ''opencode:big-pickle'' = [''opencode'', ''big-pickle'']
   \<and> modelBody (Some ''opencode:big-pickle'')
       = Some \<lparr>providerID = ''opencode'', modelID = ''big-pickle''\<rparr>"
proof -
  have p: "CHR '':'' \<notin> set (provider_id example_provider)"
    by (simp add: example_provider_def)
  have m: "CHR '':'' \<notin> set ''big-pickle''"
    by simp
  have v: "model_value (model_entry serving example_provider ''big-pickle'' example_model)
       = ''opencode:big-pickle''"
    by (simp add: model_entry_def Let_def example_provider_def)
  from key_round_trip [OF p m, of serving example_model] p v
  show ?thesis by (simp add: example_provider_def)
qed

lemma query_try_malformed:
  assumes "malformed_key k"
  shows "query_try b prompt sid (Some (opts\<lparr>opt_model := Some k\<rparr>))
           = query_try b prompt sid (Some (opts\<lparr>opt_model := None\<rparr>))"
  by (simp add: query_try_def modelBody_malformed[OF assms] modelBody_None)

lemma query_sessionId_model:
  "query_sessionId s (Some (opts\<lparr>opt_model := m\<rparr>)) = query_sessionId s (Some opts)"
  by (simp add: query_sessionId_def)

lemma query_malformed:
  assumes "malformed_key k"
  shows "query b s prompt (Some (opts\<lparr>opt_model := Some k\<rparr>))
           = query b s prompt (Some (opts\<lparr>opt_model := None\<rparr>))"
  unfolding query_def query_try_malformed[OF assms] query_sessionId_model ..

lemma query_sent:
  assumes "client s = Some c" and "session_prompt c"
    and "query_sessionId s options = Some sid" and "sid \<noteq> []"
  shows "snd (snd (query b s prompt options))
           = [QueryStarted, Remote (SessionPrompt sid
                \<lparr>body_parts = [TextPart prompt],
                 body_model = modelBody (case options of None \<Rightarrow> None | Some opts \<Rightarrow> opt_model opts),
                 body_noReply = False\<rparr>)]"
  using assms
  by (simp add: query_def query_try_def Let_def split: sum.splits option.splits)

text \<open>
  C10. A malformed model key changes nothing: the whole run of \<^verbatim>\<open>query\<close> (chunks, service
  afterwards, requests) is the run with no model given, so the key by itself never yields an
  error chunk; and when the client, the session and \<^verbatim>\<open>session.prompt\<close> are there, the prompt
  request goes out with the model selector left out.
\<close>

theorem query_ignores_malformed_key:
  assumes "malformed_key k"
  shows "query b s prompt (Some (opts\<lparr>opt_model := Some k\<rparr>))
           = query b s prompt (Some (opts\<lparr>opt_model := None\<rparr>))
       \<and> (client s = Some c \<and> session_prompt c
            \<and> query_sessionId s (Some opts) = Some sid \<and> sid \<noteq> []
          \<longrightarrow> snd (snd (query b s prompt (Some (opts\<lparr>opt_model := Some k\<rparr>))))
                = [QueryStarted, Remote (SessionPrompt sid
                     \<lparr>body_parts = [TextPart prompt], body_model = None,
                      body_noReply = False\<rparr>)])"
proof (intro conjI impI)
  show "query b s prompt (Some (opts\<lparr>opt_model := Some k\<rparr>))
           = query b s prompt (Some (opts\<lparr>opt_model := None\<rparr>))"
    by (rule query_malformed [OF assms])
next
  assume ready: "client s = Some c \<and> session_prompt c
            \<and> query_sessionId s (Some opts) = Some sid \<and> sid \<noteq> []"
  then have "query_sessionId s (Some (opts\<lparr>opt_model := Some k\<rparr>)) = Some sid"
    by (simp add: query_sessionId_model)
  with ready show "snd (snd (query b s prompt (Some (opts\<lparr>opt_model := Some k\<rparr>))))
                = [QueryStarted, Remote (SessionPrompt sid
                     \<lparr>body_parts = [TextPart prompt], body_model = None,
                      body_noReply = False\<rparr>)]"
    by (simp add: query_sent modelBody_malformed [OF assms])
qed

theorem query_ignores_malformed_key_witness:
  "malformed_key ''big-pickle''
   \<and> client bound = Some full_client \<and> session_prompt full_client
   \<and> query_sessionId bound (Some plain_options) = Some ''s1''
   \<and> query scenario_B bound ''hello'' (Some (plain_options\<lparr>opt_model := Some ''big-pickle''\<rparr>))
       = query scenario_B bound ''hello'' (Some (plain_options\<lparr>opt_model := None\<rparr>))
   \<and> snd (snd (query scenario_B bound ''hello''
                  (Some (plain_options\<lparr>opt_model := Some ''big-pickle''\<rparr>))))
       = [QueryStarted, Remote (SessionPrompt ''s1''
            \<lparr>body_parts = [TextPart ''hello''], body_model = None, body_noReply = False\<rparr>)]"
proof -
  have m: "malformed_key ''big-pickle''"
    by (simp add: malformed_key_def)
  have p: "session_prompt full_client"
    by (simp add: full_client_def)
  have sid: "query_sessionId bound (Some plain_options) = Some ''s1''"
    by (simp add: query_sessionId_def plain_options_def bound_session)
  note run = query_ignores_malformed_key [OF m, where b = scenario_B and s = bound
      and prompt = "''hello''" and opts = plain_options and c = full_client and sid = "''s1''"]
  have same: "query scenario_B bound ''hello''
                (Some (plain_options\<lparr>opt_model := Some ''big-pickle''\<rparr>))
       = query scenario_B bound ''hello'' (Some (plain_options\<lparr>opt_model := None\<rparr>))"
    by (rule run [THEN conjunct1])
  have sent: "snd (snd (query scenario_B bound ''hello''
                  (Some (plain_options\<lparr>opt_model := Some ''big-pickle''\<rparr>))))
       = [QueryStarted, Remote (SessionPrompt ''s1''
            \<lparr>body_parts = [TextPart ''hello''], body_model = None, body_noReply = False\<rparr>)]"
    by (rule run [THEN conjunct2, THEN mp]) (simp add: bound_client p sid)
  from m bound_client p sid same sent show ?thesis
    by blast
qed

text \<open>Keys of each malformed kind, and a key with three segments, which is not malformed.\<close>

lemma malformed_key_examples:
  "malformed_key []" "malformed_key ''big-pickle''" "malformed_key '':big-pickle''"
  "malformed_key ''opencode:''" "malformed_key ''opencode::big-pickle''"
  "\<not> malformed_key ''opencode:big-pickle:free''"
  by (simp_all add: malformed_key_def key_before_def key_after_def)

section \<open>Sessions\<close>

text \<open>
  C9. After \<^verbatim>\<open>deleteSession(sid)\<close>, on the service and on the adapter alike, \<^verbatim>\<open>getSessionId()\<close>
  is null when the call returned true and \<open>sid\<close> was the bound session, and is what it was
  before the call in every other case.
\<close>

theorem deleteSession_session:
  "getSessionId (fst (snd (deleteSession b s sid)))
     = (if fst (deleteSession b s sid) = Inr True \<and> getSessionId s = Some sid
        then None else getSessionId s)
   \<and> wrapper_getSessionId (fst (snd (wrapper_deleteSession b w sid)))
     = (if fst (wrapper_deleteSession b w sid) = Inr True \<and> wrapper_getSessionId w = Some sid
        then None else wrapper_getSessionId w)"
  by (auto simp: deleteSession_def wrapper_deleteSession_def getSessionId_def
      wrapper_getSessionId_def split: option.splits sum.splits)

section \<open>The adapter's query\<close>

lemma convertChunk_error: "convertChunk (chunk ''error'' (Some m)) = error_chunk ''Unknown error''"
  by (simp add: convertChunk_def chunk_def)

lemma bound_wrapper_service: "opencodeService bound_wrapper = bound"
  by (simp add: bound_wrapper_def wrapper_setSessionId_def new_wrapper_def bound_def)

lemma bound_wrapper_session: "wrapper_currentSessionId bound_wrapper = Some ''s1''"
  by (simp add: bound_wrapper_def wrapper_setSessionId_def new_wrapper_def)

lemma offline_prompt: "prompt_reply offline = Inl (JsError ''fetch failed'')"
  by (simp add: offline_def)

lemma query_rejected:
  assumes "client s = Some c" and "session_prompt c"
    and "query_sessionId s options = Some sid" and "sid \<noteq> []"
    and "prompt_reply b = Inl e"
  shows "fst (query b s prompt options) = ([chunk ''error'' (Some (error_message e))], None)"
  using assms by (simp add: query_def query_try_def Let_def)

text \<open>
  Whenever the service's run ends with an error chunk, whatever its message, the adapter's
  run ends with the error chunk whose content is \<^verbatim>\<open>Unknown error\<close>.
\<close>

lemma wrapper_stream_error:
  assumes "fst (query b (opencodeService w) prompt (Some (wrapper_options w images queryOptions)))
             = (cs @ [chunk ''error'' (Some m)], None)"
  shows "fst (wrapper_stream b w prompt images queryOptions)
           = (map convertChunk cs @ [error_chunk ''Unknown error''], None)"
proof -
  obtain s1 sent where
    "query b (opencodeService w) prompt (Some (wrapper_options w images queryOptions))
       = ((cs @ [chunk ''error'' (Some m)], None), s1, sent)"
    using assms
    by (cases "query b (opencodeService w) prompt (Some (wrapper_options w images queryOptions))")
      auto
  then show ?thesis
    by (simp add: wrapper_stream_def convertChunk_error)
qed

text \<open>
  C1. The adapter has session \<^verbatim>\<open>s1\<close> bound and the prompt call rejects with an \<^verbatim>\<open>Error\<close> whose
  message is \<^verbatim>\<open>fetch failed\<close>. The service ends with the error chunk carrying that message in
  \<^verbatim>\<open>content\<close>. \<^verbatim>\<open>convertChunk\<close> reads the chunk's \<^verbatim>\<open>error\<close> field, which the service never
  sets, so the adapter's only chunk is an error chunk with the content \<^verbatim>\<open>Unknown error\<close>.
  The same happens over a service that was never initialized, whose error chunk says
  \<^verbatim>\<open>OpenCode client not initialized\<close>.
\<close>

theorem wrapper_query_loses_message:
  "fst (query offline (opencodeService bound_wrapper) ''hello''
          (Some (wrapper_options bound_wrapper None None)))
     = ([chunk ''error'' (Some ''fetch failed'')], None)
   \<and> fst (wrapper_query offline bound_wrapper ''hello'' None None None)
     = ([error_chunk ''Unknown error''], None)
   \<and> fst (query serving (opencodeService unready_wrapper) ''hello''
          (Some (wrapper_options unready_wrapper None None)))
     = ([chunk ''error'' (Some ''OpenCode client not initialized'')], None)
   \<and> fst (wrapper_query serving unready_wrapper ''hello'' None None None)
     = ([error_chunk ''Unknown error''], None)"
proof -
  have u: "client (opencodeService unready_wrapper) = None"
    "wrapper_currentSessionId unready_wrapper = Some ''s1''"
    by (simp_all add: unready_wrapper_def wrapper_setSessionId_def new_wrapper_def
        setSessionId_def new_OpencodeService_def)
  have uq: "fst (query serving (opencodeService unready_wrapper) ''hello''
          (Some (wrapper_options unready_wrapper None None)))
     = ([chunk ''error'' (Some ''OpenCode client not initialized'')], None)"
    by (simp add: query_def u)
  from wrapper_stream_error [where cs = "[]", simplified, OF uq]
  have uw: "fst (wrapper_query serving unready_wrapper ''hello'' None None None)
     = ([error_chunk ''Unknown error''], None)"
    by (simp add: wrapper_query_def u)
  have sid: "query_sessionId bound (Some (wrapper_options bound_wrapper None None)) = Some ''s1''"
    by (simp add: query_sessionId_def wrapper_options_def bound_wrapper_session)
  have q: "fst (query offline bound ''hello'' (Some (wrapper_options bound_wrapper None None)))
     = ([chunk ''error'' (Some ''fetch failed'')], None)"
    using query_rejected [OF bound_client _ sid _ offline_prompt, of "''hello''"]
    by (simp add: full_client_def)
  then obtain s1 sent where
    "query offline bound ''hello'' (Some (wrapper_options bound_wrapper None None))
       = (([chunk ''error'' (Some ''fetch failed'')], None), s1, sent)"
    by (cases "query offline bound ''hello'' (Some (wrapper_options bound_wrapper None None))") auto
  then have "fst (wrapper_query offline bound_wrapper ''hello'' None None None)
     = ([error_chunk ''Unknown error''], None)"
    by (simp add: wrapper_query_def wrapper_stream_def bound_wrapper_session
        bound_wrapper_service convertChunk_error)
  with q uq uw show ?thesis by (simp add: bound_wrapper_service)
qed

lemma createSession_events:
  "snd (snd (createSession b s title)) = [ConsoleError ''[OpenCode] Client not initialized'']
   \<or> snd (snd (createSession b s title))
       = [ConsoleError ''[OpenCode] session.create method not available'']
   \<or> snd (snd (createSession b s title))
       = [Remote (SessionCreate (nullish title ''OpenCode Session''))]"
  by (simp add: createSession_def split: option.splits sum.splits)

text \<open>
  C2. When the adapter has no session bound and the service's \<^verbatim>\<open>createSession()\<close> returns
  null, the adapter's \<^verbatim>\<open>query\<close> yields the single chunk
  \<^verbatim>\<open>{type:'error', content:'Failed to create OpenCode session'}\<close> and returns; its events are
  those of \<^verbatim>\<open>createSession\<close> alone: the service's \<^verbatim>\<open>query\<close> is never entered and no prompt
  request is sent.
\<close>

theorem wrapper_query_no_session:
  assumes "wrapper_getSessionId w = None"
    and "fst (createSession b (opencodeService w) None) = Inr None"
  shows "fst (wrapper_query b w prompt images history queryOptions)
           = ([error_chunk ''Failed to create OpenCode session''], None)
       \<and> snd (snd (wrapper_query b w prompt images history queryOptions))
           = snd (snd (createSession b (opencodeService w) None))
       \<and> QueryStarted \<notin> set (snd (snd (wrapper_query b w prompt images history queryOptions)))
       \<and> (\<forall>sid body. Remote (SessionPrompt sid body)
              \<notin> set (snd (snd (wrapper_query b w prompt images history queryOptions))))"
proof -
  obtain s1 sent where c: "createSession b (opencodeService w) None = (Inr None, s1, sent)"
    using assms(2) by (cases "createSession b (opencodeService w) None") auto
  have run: "wrapper_query b w prompt images history queryOptions
      = (([error_chunk ''Failed to create OpenCode session''], None),
         w\<lparr>opencodeService := s1\<rparr>, sent)"
    using assms(1) c
    by (simp add: wrapper_query_def wrapper_createSession_def wrapper_getSessionId_def)
  have "sent = snd (snd (createSession b (opencodeService w) None))"
    using c by simp
  with createSession_events [of b "opencodeService w" None]
  have "QueryStarted \<notin> set sent \<and> (\<forall>sid body. Remote (SessionPrompt sid body) \<notin> set sent)"
    by auto
  with run c show ?thesis by simp
qed

theorem wrapper_query_no_session_witness:
  "wrapper_getSessionId (new_wrapper connected) = None
   \<and> fst (createSession offline connected None) = Inr None
   \<and> fst (wrapper_query offline (new_wrapper connected) ''hello'' None None None)
       = ([error_chunk ''Failed to create OpenCode session''], None)
   \<and> snd (snd (wrapper_query offline (new_wrapper connected) ''hello'' None None None))
       = [Remote (SessionCreate ''OpenCode Session'')]"
proof -
  have none: "wrapper_getSessionId (new_wrapper connected) = None"
    by (simp add: wrapper_getSessionId_def new_wrapper_def)
  have svc: "opencodeService (new_wrapper connected) = connected"
    by (simp add: new_wrapper_def)
  have create: "createSession offline connected None
      = (Inr None, connected, [Remote (SessionCreate ''OpenCode Session'')])"
    by (simp add: createSession_def connected_client full_client_def offline_def)
  then have null: "fst (createSession offline (opencodeService (new_wrapper connected)) None)
      = Inr None"
    by (simp add: svc)
  from wrapper_query_no_session [OF none null, of "''hello''" None None None] none create
  show ?thesis by (simp add: svc)
qed

section \<open>Cancellation\<close>

text \<open>
  C5, as claimed, fails: with no abort controller, but a session bound on an initialized
  client, \<^verbatim>\<open>abort()\<close> still sends the remote abort request for that session.
\<close>

theorem abort_sends_request:
  "abortController bound = None
   \<and> snd (snd (abort offline bound)) = [Remote (SessionAbort ''s1'')]
   \<and> snd (snd (abort offline bound)) \<noteq> []"
  by (simp add: abort_def example_defs)

text \<open>
  C5, amended. With no abort controller, \<^verbatim>\<open>abort()\<close> throws nothing and leaves the service as
  it was; it sends the abort request for the bound session when a non-empty session id is
  bound and the client has \<^verbatim>\<open>session.abort\<close>, and does nothing at all otherwise.
\<close>

theorem abort_without_controller:
  assumes "abortController s = None"
  shows "fst (abort b s) = Inr ()
       \<and> fst (snd (abort b s)) = s
       \<and> snd (snd (abort b s))
           = (case (currentSessionId s, client s) of
                (Some sid, Some c) \<Rightarrow>
                  if sid \<noteq> [] \<and> session_abort c then [Remote (SessionAbort sid)] else []
              | _ \<Rightarrow> [])"
  using assms by (simp add: abort_def split: option.splits)

theorem abort_without_controller_witness:
  "abortController connected = None
   \<and> abort serving connected = (Inr (), connected, [])
   \<and> abortController bound = None
   \<and> abort serving bound = (Inr (), bound, [Remote (SessionAbort ''s1'')])"
proof -
  have c: "abortController connected = None" and b: "abortController bound = None"
    by (simp_all add: example_defs)
  have sc: "currentSessionId connected = None"
    by (simp add: example_defs)
  have "session_abort full_client"
    by (simp add: full_client_def)
  with abort_without_controller [OF c, of serving] abort_without_controller [OF b, of serving]
    c b sc bound_session bound_client connected_client
  show ?thesis by (simp add: prod_eq_iff)
qed

section \<open>The capability cache\<close>

lemmas method_defs = initialize_def healthCheck_def getProviders_def getModels_def clearCache_def
  createSession_def getSession_def listSessions_def deleteSession_def query_def getMessages_def
  shareSession_def abort_def setSessionId_def cleanup_def

lemma getModels_hit: "cachedModels s = Some ms \<Longrightarrow> getModels b s = (Inr ms, s, [])"
  by (simp add: getModels_def)

lemma getModels_caches: "getModels b s = (Inr ms, s1, sent) \<Longrightarrow> cachedModels s1 = Some ms"
  by (auto simp: getModels_def getProviders_def split: option.splits sum.splits if_splits)

lemma getModels_fetch:
  assumes "client s = Some c" and "config_providers c"
    and "cachedProviders s = None" and "cachedModels s = None"
  shows "snd (snd (getModels b s)) = [Remote ConfigProviders]"
    and "fst (getModels b s)
           = Inr (case providers_reply b of Inl e \<Rightarrow> [] | Inr ps \<Rightarrow> all_models b ps)"
  using assms
  by (simp_all add: getModels_def getProviders_def split: sum.splits)

text \<open>What a call leaves alone, and what a sequence of calls does.\<close>

lemma step_client:
  "snd c \<noteq> Cleanup \<Longrightarrow> snd c \<noteq> Initialize \<Longrightarrow> client (step c s) = client s"
  by (cases c; cases "snd c")
     (auto simp: method_defs split: option.splits sum.splits prod.splits)

lemma step_cachedModels:
  "snd c \<noteq> ClearCache \<Longrightarrow> cachedModels s = Some ms \<Longrightarrow> cachedModels (step c s) = Some ms"
  by (cases c; cases "snd c")
     (auto simp: method_defs split: option.splits sum.splits prod.splits)

lemma step_caches_empty:
  assumes "snd c \<noteq> GetProviders" and "snd c \<noteq> GetModels"
    and "cachedProviders s = None" and "cachedModels s = None"
  shows "cachedProviders (step c s) = None \<and> cachedModels (step c s) = None"
  using assms
  by (cases c; cases "snd c")
     (auto simp: method_defs split: option.splits sum.splits prod.splits)

lemma step_cache_inv: "snd c \<noteq> Cleanup \<Longrightarrow> cache_inv s \<Longrightarrow> cache_inv (step c s)"
  by (cases c; cases "snd c")
     (auto simp: cache_inv_def method_defs split: option.splits sum.splits prod.splits)

lemma step_sdk_inv:
  "snd c \<noteq> Cleanup \<Longrightarrow> same_sdk_call sdk c \<Longrightarrow> sdk_inv sdk s \<Longrightarrow> sdk_inv sdk (step c s)"
  by (cases c; cases "snd c")
     (auto simp: sdk_inv_def method_defs split: option.splits sum.splits prod.splits if_splits)

lemma run_cachedModels:
  "no_clearCache calls \<Longrightarrow> cachedModels s = Some ms \<Longrightarrow> cachedModels (run calls s) = Some ms"
  by (induction calls arbitrary: s) (simp_all add: no_clearCache_def step_cachedModels)

lemma run_caches_empty:
  "no_fetch calls \<Longrightarrow> cachedProviders s = None \<Longrightarrow> cachedModels s = None
     \<Longrightarrow> cachedProviders (run calls s) = None \<and> cachedModels (run calls s) = None"
  by (induction calls arbitrary: s) (simp_all add: no_fetch_def step_caches_empty)

lemma run_cache_inv: "no_cleanup calls \<Longrightarrow> cache_inv s \<Longrightarrow> cache_inv (run calls s)"
  by (induction calls arbitrary: s) (simp_all add: no_cleanup_def step_cache_inv)

lemma run_sdk_inv:
  "no_cleanup calls \<Longrightarrow> same_sdk sdk calls \<Longrightarrow> sdk_inv sdk s \<Longrightarrow> sdk_inv sdk (run calls s)"
  by (induction calls arbitrary: s) (simp_all add: no_cleanup_def same_sdk_def step_sdk_inv)

lemma new_cache_inv: "cache_inv (new_OpencodeService h p t)"
  by (simp add: cache_inv_def new_OpencodeService_def)

lemma new_sdk_inv: "sdk_inv sdk (new_OpencodeService h p t)"
  by (simp add: sdk_inv_def new_OpencodeService_def)

lemma run_client:
  "no_cleanup calls \<Longrightarrow> same_sdk sdk calls \<Longrightarrow> client s = Some sdk
     \<Longrightarrow> client (run calls s) = Some sdk"
proof (induction calls arbitrary: s)
  case Nil
  then show ?case by simp
next
  case (Cons c calls)
  obtain b m where c: "c = (b, m)"
    by (cases c)
  have "client (step c s) = Some sdk"
  proof (cases "m = Initialize")
    case True
    with Cons.prems c show ?thesis
      by (simp add: same_sdk_def initialize_def split: sum.splits)
  next
    case False
    with Cons.prems c show ?thesis
      by (simp add: no_cleanup_def step_client)
  qed
  with Cons show ?case
    by (simp add: no_cleanup_def same_sdk_def)
qed

text \<open>
  C7. Take a service anywhere in its life (built by any calls but \<^verbatim>\<open>cleanup\<close>, after which
  nothing may be called) on which \<^verbatim>\<open>getModels()\<close> has returned a populated list. Whatever is
  called next, as long as it is not \<^verbatim>\<open>clearCache\<close>, a later \<^verbatim>\<open>getModels()\<close> returns the same
  list, leaves the service as it is and sends no request, whatever the server would answer:
  the cache is never refreshed silently. After \<^verbatim>\<open>clearCache()\<close> the next \<^verbatim>\<open>getModels()\<close>, with
  any calls in between that do not themselves ask for the providers, sends a fresh provider
  request and computes its result from the answer.
\<close>

theorem getModels_cache:
  assumes life0: "no_cleanup calls0" "same_sdk sdk calls0"
    and first: "getModels b1 (run calls0 (new_OpencodeService h p t)) = (Inr ms, s1, sent1)"
    and populated: "ms \<noteq> []"
    and life1: "no_cleanup calls1" "same_sdk sdk calls1" and kept: "no_clearCache calls1"
    and life2: "no_cleanup calls2" "same_sdk sdk calls2" and idle: "no_fetch calls2"
  shows "getModels b2 (run calls1 s1) = (Inr ms, run calls1 s1, [])
       \<and> snd (snd (getModels b3 (run calls2 (clearCache (run calls1 s1)))))
           = [Remote ConfigProviders]
       \<and> fst (getModels b3 (run calls2 (clearCache (run calls1 s1))))
           = Inr (case providers_reply b3 of Inl e \<Rightarrow> [] | Inr ps \<Rightarrow> all_models b3 ps)"
proof -
  have cached: "cachedModels s1 = Some ms"
    using first by (rule getModels_caches)
  have "sdk_inv sdk (run calls0 (new_OpencodeService h p t))"
    using life0 new_sdk_inv by (rule run_sdk_inv)
  then have "sdk_inv sdk (step (b1, GetModels) (run calls0 (new_OpencodeService h p t)))"
    by (simp add: step_sdk_inv del: step.simps)
  then have "sdk_inv sdk s1"
    using first by simp
  with cached populated have sdk: "client s1 = Some sdk" "config_providers sdk"
    by (simp_all add: sdk_inv_def)
  have hit: "cachedModels (run calls1 s1) = Some ms"
    using kept cached by (rule run_cachedModels)
  have c1: "client (run calls1 s1) = Some sdk"
    using life1 sdk(1) by (rule run_client)
  have "client (clearCache (run calls1 s1)) = Some sdk"
    using c1 by (simp add: clearCache_def)
  with life2 have c2: "client (run calls2 (clearCache (run calls1 s1))) = Some sdk"
    by (rule run_client)
  have "cachedProviders (clearCache (run calls1 s1)) = None"
    "cachedModels (clearCache (run calls1 s1)) = None"
    by (simp_all add: clearCache_def)
  with idle have empty: "cachedProviders (run calls2 (clearCache (run calls1 s1))) = None"
    "cachedModels (run calls2 (clearCache (run calls1 s1))) = None"
    using run_caches_empty by blast+
  from getModels_hit [OF hit] getModels_fetch [OF c2 sdk(2) empty]
  show ?thesis by simp
qed

lemma example_models:
  "provider_entries b example_provider (provider_models example_provider)
     = [model_entry b example_provider ''big-pickle'' example_model]"
  by (simp add: example_provider_def)

lemma connected_getModels:
  "getModels serving connected
     = (Inr [model_entry serving example_provider ''big-pickle'' example_model],
        connected\<lparr>cachedProviders := Some [example_provider],
          cachedModels := Some [model_entry serving example_provider ''big-pickle'' example_model]\<rparr>,
        [Remote ConfigProviders])"
proof -
  have "cachedModels connected = None" "cachedProviders connected = None"
    by (simp_all add: connected_def initialize_def offline_def new_OpencodeService_def)
  moreover have "providers_reply serving = Inr [example_provider]"
    by (simp add: serving_def)
  moreover have "config_providers full_client"
    by (simp add: full_client_def)
  ultimately show ?thesis
    by (simp add: getModels_def getProviders_def connected_client example_models)
qed

theorem getModels_cache_witness:
  "no_cleanup [(offline, Initialize)] \<and> same_sdk full_client [(offline, Initialize)]
   \<and> getModels serving (run [(offline, Initialize)] (new_OpencodeService None None None))
       = (Inr [model_entry serving example_provider ''big-pickle'' example_model],
          connected\<lparr>cachedProviders := Some [example_provider],
            cachedModels :=
              Some [model_entry serving example_provider ''big-pickle'' example_model]\<rparr>,
          [Remote ConfigProviders])
   \<and> getModels offline
         (run [(offline, GetProviders), (serving, CreateSession None), (offline, Initialize)]
            (connected\<lparr>cachedProviders := Some [example_provider],
               cachedModels :=
                 Some [model_entry serving example_provider ''big-pickle'' example_model]\<rparr>))
       = (Inr [model_entry serving example_provider ''big-pickle'' example_model],
          run [(offline, GetProviders), (serving, CreateSession None), (offline, Initialize)]
            (connected\<lparr>cachedProviders := Some [example_provider],
               cachedModels :=
                 Some [model_entry serving example_provider ''big-pickle'' example_model]\<rparr>),
          [])
   \<and> snd (snd (getModels serving
         (run [(serving, HealthCheck), (offline, ClearCache)]
            (clearCache
               (run [(offline, GetProviders), (serving, CreateSession None), (offline, Initialize)]
                  (connected\<lparr>cachedProviders := Some [example_provider],
                     cachedModels :=
                       Some [model_entry serving example_provider ''big-pickle''
                               example_model]\<rparr>))))))
       = [Remote ConfigProviders]"
proof -
  let ?calls1 = "[(offline, GetProviders), (serving, CreateSession None), (offline, Initialize)]"
  let ?calls2 = "[(serving, HealthCheck), (offline, ClearCache)]"
  have start: "run [(offline, Initialize)] (new_OpencodeService None None None) = connected"
    by (simp add: connected_def)
  have life0: "no_cleanup [(offline, Initialize)]" "same_sdk full_client [(offline, Initialize)]"
    by (simp_all add: no_cleanup_def same_sdk_def offline_def)
  have first: "getModels serving (run [(offline, Initialize)] (new_OpencodeService None None None))
       = (Inr [model_entry serving example_provider ''big-pickle'' example_model],
          connected\<lparr>cachedProviders := Some [example_provider],
            cachedModels :=
              Some [model_entry serving example_provider ''big-pickle'' example_model]\<rparr>,
          [Remote ConfigProviders])"
    by (simp only: start connected_getModels)
  have life1: "no_cleanup ?calls1" "same_sdk full_client ?calls1" "no_clearCache ?calls1"
    by (simp_all add: no_cleanup_def same_sdk_def no_clearCache_def offline_def)
  have life2: "no_cleanup ?calls2" "same_sdk full_client ?calls2" "no_fetch ?calls2"
    by (simp_all add: no_cleanup_def same_sdk_def no_fetch_def)
  from getModels_cache [OF life0 first _ life1 life2, of offline serving] life0 first
  show ?thesis by simp
qed

section \<open>Failure semantics of the non-streaming methods\<close>

text \<open>
  C8. On a service anywhere in its life (built by any calls but \<^verbatim>\<open>cleanup\<close>), whenever the
  client is uninitialized or the remote call rejects, \<^verbatim>\<open>healthCheck\<close>, \<^verbatim>\<open>createSession\<close>,
  \<^verbatim>\<open>getSession\<close>, \<^verbatim>\<open>listSessions\<close>, \<^verbatim>\<open>deleteSession\<close>, \<^verbatim>\<open>getMessages\<close>, \<^verbatim>\<open>shareSession\<close> and
  \<^verbatim>\<open>getProviders\<close> return the neutral value of their type (false, null, the empty list), and
  none of them ever throws. For \<^verbatim>\<open>getProviders\<close>, which calls the server only when no provider
  list is cached, the remote call rejects when the request is sent and rejected.
\<close>

theorem neutral_on_failure:
  assumes "no_cleanup calls" and "s = run calls (new_OpencodeService h p t)"
  shows "(client s = None \<or> health_reply b = Inl e \<longrightarrow> fst (healthCheck b s) = Inr False)
   \<and> (client s = None \<or> create_reply b = Inl e \<longrightarrow> fst (createSession b s title) = Inr None)
   \<and> (client s = None \<or> get_reply b = Inl e \<longrightarrow> fst (getSession b s sid) = Inr None)
   \<and> (client s = None \<or> list_reply b = Inl e \<longrightarrow> fst (listSessions b s) = Inr [])
   \<and> (client s = None \<or> delete_reply b = Inl e \<longrightarrow> fst (deleteSession b s sid) = Inr False)
   \<and> (client s = None \<or> messages_reply b = Inl e \<longrightarrow> fst (getMessages b s sid) = Inr [])
   \<and> (client s = None \<or> share_reply b = Inl e \<longrightarrow> fst (shareSession b s sid) = Inr None)
   \<and> (client s = None
        \<or> snd (snd (getProviders b s)) = [Remote ConfigProviders] \<and> providers_reply b = Inl e
      \<longrightarrow> fst (getProviders b s) = Inr [])
   \<and> fst (healthCheck b s) \<noteq> Inl x
   \<and> fst (createSession b s title) \<noteq> Inl x
   \<and> fst (getSession b s sid) \<noteq> Inl x
   \<and> fst (listSessions b s) \<noteq> Inl x
   \<and> fst (deleteSession b s sid) \<noteq> Inl x
   \<and> fst (getMessages b s sid) \<noteq> Inl x
   \<and> fst (shareSession b s sid) \<noteq> Inl x
   \<and> fst (getProviders b s) \<noteq> Inl x"
proof (intro conjI)
  have inv: "cache_inv s"
    unfolding assms(2) using assms(1) new_cache_inv by (rule run_cache_inv)
  show "client s = None \<or> health_reply b = Inl e \<longrightarrow> fst (healthCheck b s) = Inr False"
    by (auto simp: healthCheck_def split: option.splits)
  show "client s = None \<or> create_reply b = Inl e \<longrightarrow> fst (createSession b s title) = Inr None"
    by (auto simp: createSession_def split: option.splits)
  show "client s = None \<or> get_reply b = Inl e \<longrightarrow> fst (getSession b s sid) = Inr None"
    by (auto simp: getSession_def split: option.splits)
  show "client s = None \<or> list_reply b = Inl e \<longrightarrow> fst (listSessions b s) = Inr []"
    by (auto simp: listSessions_def split: option.splits)
  show "client s = None \<or> delete_reply b = Inl e \<longrightarrow> fst (deleteSession b s sid) = Inr False"
    by (auto simp: deleteSession_def split: option.splits)
  show "client s = None \<or> messages_reply b = Inl e \<longrightarrow> fst (getMessages b s sid) = Inr []"
    by (auto simp: getMessages_def split: option.splits)
  show "client s = None \<or> share_reply b = Inl e \<longrightarrow> fst (shareSession b s sid) = Inr None"
    by (auto simp: shareSession_def split: option.splits)
  show "client s = None
        \<or> snd (snd (getProviders b s)) = [Remote ConfigProviders] \<and> providers_reply b = Inl e
      \<longrightarrow> fst (getProviders b s) = Inr []"
    using inv by (auto simp: cache_inv_def getProviders_def split: option.splits if_splits)
  show "fst (healthCheck b s) \<noteq> Inl x"
    by (simp add: healthCheck_def split: option.splits sum.splits)
  show "fst (createSession b s title) \<noteq> Inl x"
    by (simp add: createSession_def split: option.splits sum.splits)
  show "fst (getSession b s sid) \<noteq> Inl x"
    by (simp add: getSession_def split: option.splits sum.splits)
  show "fst (listSessions b s) \<noteq> Inl x"
    by (simp add: listSessions_def split: option.splits sum.splits)
  show "fst (deleteSession b s sid) \<noteq> Inl x"
    by (simp add: deleteSession_def split: option.splits sum.splits)
  show "fst (getMessages b s sid) \<noteq> Inl x"
    by (simp add: getMessages_def split: option.splits sum.splits)
  show "fst (shareSession b s sid) \<noteq> Inl x"
    by (simp add: shareSession_def split: option.splits sum.splits)
  show "fst (getProviders b s) \<noteq> Inl x"
    by (simp add: getProviders_def split: option.splits sum.splits)
qed

theorem neutral_on_failure_witness:
  "no_cleanup [(broken_sdk, Initialize), (serving, GetProviders)]
   \<and> client (run [(broken_sdk, Initialize), (serving, GetProviders)]
                (new_OpencodeService None None None)) = None
   \<and> fst (healthCheck serving (run [(broken_sdk, Initialize), (serving, GetProviders)]
                (new_OpencodeService None None None))) = Inr False
   \<and> fst (createSession serving (run [(broken_sdk, Initialize), (serving, GetProviders)]
                (new_OpencodeService None None None)) None) = Inr None
   \<and> fst (getSession serving (run [(broken_sdk, Initialize), (serving, GetProviders)]
                (new_OpencodeService None None None)) ''s1'') = Inr None
   \<and> fst (listSessions serving (run [(broken_sdk, Initialize), (serving, GetProviders)]
                (new_OpencodeService None None None))) = Inr []
   \<and> fst (deleteSession serving (run [(broken_sdk, Initialize), (serving, GetProviders)]
                (new_OpencodeService None None None)) ''s1'') = Inr False
   \<and> fst (getMessages serving (run [(broken_sdk, Initialize), (serving, GetProviders)]
                (new_OpencodeService None None None)) ''s1'') = Inr []
   \<and> fst (shareSession serving (run [(broken_sdk, Initialize), (serving, GetProviders)]
                (new_OpencodeService None None None)) ''s1'') = Inr None
   \<and> fst (getProviders serving (run [(broken_sdk, Initialize), (serving, GetProviders)]
                (new_OpencodeService None None None))) = Inr []
   \<and> no_cleanup [(offline, Initialize), (offline, SetSessionId (Some ''s1''))]
   \<and> bound = run [(offline, Initialize), (offline, SetSessionId (Some ''s1''))]
                (new_OpencodeService None None None)
   \<and> health_reply offline = Inl (JsError ''fetch failed'')
   \<and> snd (snd (getProviders offline bound)) = [Remote ConfigProviders]
   \<and> providers_reply offline = Inl (JsError ''fetch failed'')
   \<and> fst (healthCheck offline bound) = Inr False
   \<and> fst (createSession offline bound None) = Inr None
   \<and> fst (getSession offline bound ''s1'') = Inr None
   \<and> fst (listSessions offline bound) = Inr []
   \<and> fst (deleteSession offline bound ''s1'') = Inr False
   \<and> fst (getMessages offline bound ''s1'') = Inr []
   \<and> fst (shareSession offline bound ''s1'') = Inr None
   \<and> fst (getProviders offline bound) = Inr []"
proof -
  let ?failed = "run [(broken_sdk, Initialize), (serving, GetProviders)]
                   (new_OpencodeService None None None)"
  have life1: "no_cleanup [(broken_sdk, Initialize), (serving, GetProviders)]"
    and life2: "no_cleanup [(offline, Initialize), (offline, SetSessionId (Some ''s1''))]"
    by (simp_all add: no_cleanup_def)
  have no_client: "client ?failed = None"
    by (simp add: initialize_def getProviders_def broken_sdk_def new_OpencodeService_def)
  have built: "bound = run [(offline, Initialize), (offline, SetSessionId (Some ''s1''))]
                (new_OpencodeService None None None)"
    by (simp add: bound_def connected_def)
  have rejects: "health_reply offline = Inl (JsError ''fetch failed'')"
    "create_reply offline = Inl (JsError ''fetch failed'')"
    "get_reply offline = Inl (JsError ''fetch failed'')"
    "list_reply offline = Inl (JsError ''fetch failed'')"
    "delete_reply offline = Inl (JsError ''fetch failed'')"
    "messages_reply offline = Inl (JsError ''fetch failed'')"
    "share_reply offline = Inl (JsError ''fetch failed'')"
    "providers_reply offline = Inl (JsError ''fetch failed'')"
    by (simp_all add: offline_def)
  have "cachedProviders bound = None" "config_providers full_client"
    by (simp_all add: example_defs)
  then have sent: "snd (snd (getProviders offline bound)) = [Remote ConfigProviders]"
    by (simp add: getProviders_def bound_client rejects)
  note failed = neutral_on_failure [OF life1 refl, where b = serving and title = None
      and sid = "''s1''"]
  note offline = neutral_on_failure [OF life2 built, where b = offline
      and e = "JsError ''fetch failed''" and title = None and sid = "''s1''"]
  from failed no_client have 1:
    "fst (healthCheck serving ?failed) = Inr False"
    "fst (createSession serving ?failed None) = Inr None"
    "fst (getSession serving ?failed ''s1'') = Inr None"
    "fst (listSessions serving ?failed) = Inr []"
    "fst (deleteSession serving ?failed ''s1'') = Inr False"
    "fst (getMessages serving ?failed ''s1'') = Inr []"
    "fst (shareSession serving ?failed ''s1'') = Inr None"
    "fst (getProviders serving ?failed) = Inr []"
    by blast+
  from offline rejects sent have 2:
    "fst (healthCheck offline bound) = Inr False"
    "fst (createSession offline bound None) = Inr None"
    "fst (getSession offline bound ''s1'') = Inr None"
    "fst (listSessions offline bound) = Inr []"
    "fst (deleteSession offline bound ''s1'') = Inr False"
    "fst (getMessages offline bound ''s1'') = Inr []"
    "fst (shareSession offline bound ''s1'') = Inr None"
    "fst (getProviders offline bound) = Inr []"
    by blast+
  from life1 life2 no_client built rejects(1,8) sent 1 2 show ?thesis
    by blast
qed

end
